theory Spec2Isabelle
  imports Main
begin

section \<open>JavaScript strings\<close>

text \<open>
  A JavaScript string is modelled as a \<^typ>\<open>string\<close>; a character stands for the
  code unit of the same number, so the strings of the model are those whose code units
  are below 256.
\<close>

text \<open>The class \<^verbatim>\<open>\d\<close> of a regular expression: the ten ASCII digits.\<close>

definition is_digit :: "char \<Rightarrow> bool" where
  "is_digit c = (c \<in> set ''0123456789'')"

text \<open>
  The class \<^verbatim>\<open>\s\<close>, which is also what \<^verbatim>\<open>String.prototype.trim\<close> removes:
  tab, line feed, vertical tab, form feed, carriage return, space and no-break space
  (the members of the class below 256).
\<close>

definition is_space :: "char \<Rightarrow> bool" where
  "is_space c = (c \<in> set [CHR 0x09, CHR 0x0A, CHR 0x0B, CHR 0x0C, CHR 0x0D, CHR 0x20, CHR 0xA0])"

text \<open>The relational operator \<^verbatim>\<open><\<close> on two strings: code unit by code unit.\<close>

fun str_lt :: "string \<Rightarrow> string \<Rightarrow> bool" where
  "str_lt [] [] = False"
| "str_lt [] (y # ys) = True"
| "str_lt (x # xs) [] = False"
| "str_lt (x # xs) (y # ys) =
     ((of_char x :: nat) < of_char y \<or> (x = y \<and> str_lt xs ys))"

text \<open>\<^verbatim>\<open>s.split("/")\<close>: the segments between the slashes, never an empty array.\<close>

fun split_slash :: "string \<Rightarrow> string list" where
  "split_slash [] = [[]]"
| "split_slash (c # cs) =
     (if c = CHR ''/'' then [] # split_slash cs
      else (case split_slash cs of
              [] \<Rightarrow> [[c]]
            | seg # segs \<Rightarrow> (c # seg) # segs))"

text \<open>
  \<^verbatim>\<open>basename(filename, ".html")\<close> of Node's \<^verbatim>\<open>path\<close> module on a name without a
  slash: the suffix is removed when the name ends with it, and a name that is the suffix
  itself gives the empty string.
\<close>

definition basename_html :: "string \<Rightarrow> string" where
  "basename_html f =
     (if length ''.html'' \<le> length f \<and> drop (length f - length ''.html'') f = ''.html''
      then take (length f - length ''.html'') f else f)"

text \<open>
  \<^verbatim>\<open>s.replace(/\s\s+/, " ")\<close>: the expression has no \<^verbatim>\<open>g\<close> flag, so the leftmost
  run of two or more white-space characters is replaced by one space and the rest of the
  string is left as it is.
\<close>

fun replace_ws_run :: "string \<Rightarrow> string" where
  "replace_ws_run (a # b # cs) =
     (if is_space a \<and> is_space b then CHR '' '' # dropWhile is_space cs
      else a # replace_ws_run (b # cs))"
| "replace_ws_run cs = cs"

text \<open>
  \<^verbatim>\<open>Array.prototype.sort(compare)\<close> is stable; with a comparator that orders by a key
  its result is the one of a stable insertion sort.
\<close>

fun insert_by :: "('a \<Rightarrow> 'a \<Rightarrow> int) \<Rightarrow> 'a \<Rightarrow> 'a list \<Rightarrow> 'a list" where
  "insert_by cmp x [] = [x]"
| "insert_by cmp x (y # ys) =
     (if cmp x y \<le> 0 then x # y # ys else y # insert_by cmp x ys)"

definition sort_by :: "('a \<Rightarrow> 'a \<Rightarrow> int) \<Rightarrow> 'a list \<Rightarrow> 'a list" where
  "sort_by cmp xs = foldr (insert_by cmp) xs []"

section \<open>Errors\<close>

text \<open>
  The exceptions of the build: the two \<^verbatim>\<open>Error\<close>s thrown by the assertion functions
  (with the name interpolated into the message), the \<^verbatim>\<open>Error\<close>s of the two link filters
  on an id that is not a string, and the \<^verbatim>\<open>TypeError\<close> of the runtime.
\<close>

datatype error =
    InvalidTechnology string
  | UnexpectedVersion string
  | InvalidId
  | TypeError

section \<open>JavaScript objects\<close>

text \<open>
  An object used as a dictionary is a plain object. It is modelled by the map of its own
  string keys (an association list where the order of the keys is observable), and the
  three ways the program touches such an object follow the language: a property read that
  finds no own key goes on to \<^verbatim>\<open>Object.prototype\<close>, the operator \<^verbatim>\<open>in\<close> does the
  same, and an assignment creates or replaces an own key, except for the key
  \<^verbatim>\<open>__proto__\<close>, where it calls the inherited setter, which ignores a string.
\<close>

definition object_prototype_names :: "string list" where
  "object_prototype_names =
     [''constructor'', ''__defineGetter__'', ''__defineSetter__'', ''hasOwnProperty'',
      ''__lookupGetter__'', ''__lookupSetter__'', ''isPrototypeOf'',
      ''propertyIsEnumerable'', ''toString'', ''valueOf'', ''__proto__'',
      ''toLocaleString'']"

text \<open>
  What \<^verbatim>\<open>object[key]\<close> gives: the value of the own key, the value inherited under
  that name, or \<^verbatim>\<open>undefined\<close>.
\<close>

datatype 'a property = Undefined | Own 'a | Inherited string

definition get_property :: "(string \<rightharpoonup> 'a) \<Rightarrow> string \<Rightarrow> 'a property" where
  "get_property obj key =
     (case obj key of
        Some v \<Rightarrow> Own v
      | None \<Rightarrow> if key \<in> set object_prototype_names then Inherited key else Undefined)"

text \<open>\<^verbatim>\<open>object[key] = value\<close> with a string for the value.\<close>

definition set_property :: "(string \<rightharpoonup> string) \<Rightarrow> string \<Rightarrow> string \<Rightarrow> (string \<rightharpoonup> string)" where
  "set_property obj key v = (if key = ''__proto__'' then obj else obj(key \<mapsto> v))"

text \<open>
  A property read with the key \<^verbatim>\<open>undefined\<close> reads the property named
  \<^verbatim>\<open>undefined\<close>, and an undefined value in a template literal or under
  \<^verbatim>\<open>RegExp.prototype.test\<close> is the string \<^verbatim>\<open>undefined\<close>.
\<close>

definition to_string :: "string option \<Rightarrow> string" where
  "to_string v = (case v of None \<Rightarrow> ''undefined'' | Some s \<Rightarrow> s)"

text \<open>
  The inherited values: under \<^verbatim>\<open>__proto__\<close> the object \<^verbatim>\<open>Object.prototype\<close>, which
  has no property \<^verbatim>\<open>name\<close>; under \<^verbatim>\<open>constructor\<close> the function \<^verbatim>\<open>Object\<close>; under
  every other name the native function of that name. As a string the object is
  \<^verbatim>\<open>[object Object]\<close> and a native function its source text.
\<close>

definition inherited_name :: "string \<Rightarrow> string option" where
  "inherited_name key =
     (if key = ''__proto__'' then None
      else if key = ''constructor'' then Some ''Object''
      else Some key)"

definition inherited_to_string :: "string \<Rightarrow> string" where
  "inherited_to_string key =
     (case inherited_name key of
        None \<Rightarrow> ''[object Object]''
      | Some n \<Rightarrow> ''function '' @ n @ ''() { [native code] }'')"

text \<open>A property that should hold a string, as a template literal or a regular expression reads it.\<close>

definition string_of_property :: "string property \<Rightarrow> string" where
  "string_of_property p =
     (case p of
        Undefined \<Rightarrow> ''undefined''
      | Own s \<Rightarrow> s
      | Inherited key \<Rightarrow> inherited_to_string key)"

text \<open>
  A field read from a property that should hold a record: the field of the own value;
  the inherited values have none of the fields the filters read but \<^verbatim>\<open>name\<close>.
\<close>

definition read_field :: "('a \<Rightarrow> string) \<Rightarrow> 'a property \<Rightarrow> string" where
  "read_field f p = (case p of Own x \<Rightarrow> f x | _ \<Rightarrow> ''undefined'')"

definition read_name :: "('a \<Rightarrow> string) \<Rightarrow> 'a property \<Rightarrow> string" where
  "read_name f p =
     (case p of
        Own x \<Rightarrow> f x
      | Inherited key \<Rightarrow> to_string (inherited_name key)
      | Undefined \<Rightarrow> ''undefined'')"

section \<open>11ty/techniques.ts\<close>

definition technologyTitles :: "(string \<times> string) list" where
  "technologyTitles =
     [(''aria'', ''ARIA Techniques''),
      (''client-side-script'', ''Client-Side Script Techniques''),
      (''css'', ''CSS Techniques''),
      (''failures'', ''Common Failures''),
      (''flash'', ''Flash Techniques''),
      (''general'', ''General Techniques''),
      (''html'', ''HTML Techniques''),
      (''pdf'', ''PDF Techniques''),
      (''server-side-script'', ''Server-Side Script Techniques''),
      (''silverlight'', ''Silverlight Techniques''),
      (''smil'', ''SMIL Techniques''),
      (''text'', ''Plain-Text Techniques'')]"

definition technologies :: "string list" where
  "technologies = map fst technologyTitles"

record Technique =
  id :: string
  titleHtml :: string

text \<open>
  The operator \<^verbatim>\<open>in\<close> of \<^verbatim>\<open>assertIsTechnology\<close> looks through the prototype chain, so
  it holds for the inherited names as well as for the keys of \<^verbatim>\<open>technologyTitles\<close>.
\<close>

definition assertIsTechnology :: "string \<Rightarrow> error + unit" where
  "assertIsTechnology technology =
     (if \<not> (technology \<in> set (map fst technologyTitles) \<or>
             technology \<in> set object_prototype_names)
      then Inl (InvalidTechnology technology) else Inr ())"

text \<open>
  The body of the first loop of \<^verbatim>\<open>getTechniques\<close> for one path. \<open>docs\<close> stands for
  \<^verbatim>\<open>loadFromFile\<close> followed by \<^verbatim>\<open>$("h1").html()\<close>: the inner markup of the first
  \<^verbatim>\<open>h1\<close> element of the file, \<open>None\<close> (\<^verbatim>\<open>null\<close>) when the document has none. Past the
  assertion every failure is a \<^verbatim>\<open>TypeError\<close>: \<^verbatim>\<open>basename\<close> of an undefined file
  name, \<^verbatim>\<open>replace\<close> read from \<^verbatim>\<open>null\<close>, and \<^verbatim>\<open>push\<close> called on an inherited
  property, which has no such method.
\<close>

type_synonym catalog = "(string \<times> Technique list) list"

definition push_technique :: "(string \<Rightarrow> string option) \<Rightarrow> catalog \<Rightarrow> string \<Rightarrow> error + catalog" where
  "push_technique docs techniques path =
     (case split_slash path of
        [] \<Rightarrow> Inl TypeError
      | technology # rest \<Rightarrow>
          (case assertIsTechnology technology of
             Inl e \<Rightarrow> Inl e
           | Inr _ \<Rightarrow>
               (case rest of
                  [] \<Rightarrow> Inl TypeError
                | filename # _ \<Rightarrow>
                    (case docs (''techniques/'' @ path) of
                       None \<Rightarrow> Inl TypeError
                     | Some html \<Rightarrow>
                         (if technology \<notin> set (map fst techniques) then Inl TypeError
                          else Inr (map (\<lambda>(key, list).
                                      if key = technology
                                      then (key, list @ [\<lparr>id = basename_html filename,
                                                            titleHtml = replace_ws_run html\<rparr>])
                                      else (key, list)) techniques))))))"

fun push_all :: "(string \<Rightarrow> string option) \<Rightarrow> catalog \<Rightarrow> string list \<Rightarrow> error + catalog" where
  "push_all docs techniques [] = Inr techniques"
| "push_all docs techniques (path # paths) =
     (case push_technique docs techniques path of
        Inl e \<Rightarrow> Inl e
      | Inr techniques' \<Rightarrow> push_all docs techniques' paths)"

text \<open>The comparator of the second loop: the ids with every non-digit removed, compared as strings.\<close>

definition compare_ids :: "Technique \<Rightarrow> Technique \<Rightarrow> int" where
  "compare_ids a b =
     (let aId = filter is_digit (id a); bId = filter is_digit (id b)
      in if str_lt aId bId then - 1 else if str_lt bId aId then 1 else 0)"

text \<open>
  \<^verbatim>\<open>getTechniques\<close>: \<open>paths\<close> is what \<^verbatim>\<open>glob("*/*.html", { cwd: "techniques" })\<close>
  returned, in its order.
\<close>

definition getTechniques :: "string list \<Rightarrow> (string \<Rightarrow> string option) \<Rightarrow> error + catalog" where
  "getTechniques paths docs =
     (case push_all docs (map (\<lambda>technology. (technology, [])) technologies) paths of
        Inl e \<Rightarrow> Inl e
      | Inr techniques \<Rightarrow>
          Inr (map (\<lambda>(technology, list). (technology, sort_by compare_ids list)) techniques))"

section \<open>11ty/guidelines.ts\<close>

text \<open>\<^verbatim>\<open>/^2[012]$/.test(v)\<close>: the character \<^verbatim>\<open>2\<close>, one of \<^verbatim>\<open>0\<close>, \<^verbatim>\<open>1\<close>, \<^verbatim>\<open>2\<close>, and nothing else.\<close>

definition is_wcag_version :: "string \<Rightarrow> bool" where
  "is_wcag_version v =
     (case v of
        [a, b] \<Rightarrow> a = CHR ''2'' \<and> b \<in> set ''012''
      | _ \<Rightarrow> False)"

definition assertIsWcagVersion :: "string \<Rightarrow> error + unit" where
  "assertIsWcagVersion v =
     (if \<not> is_wcag_version v then Inl (UnexpectedVersion v) else Inr ())"

text \<open>The comparison of \<^verbatim>\<open>sort()\<close> without a comparator, on strings.\<close>

definition compare_strings :: "string \<Rightarrow> string \<Rightarrow> int" where
  "compare_strings a b = (if str_lt a b then - 1 else if str_lt b a then 1 else 0)"

type_synonym versions = "(string \<times> string list) list"

text \<open>The body of the first loop of \<^verbatim>\<open>getGuidelinesVersions\<close> for one path.\<close>

definition push_version :: "versions \<Rightarrow> string \<Rightarrow> error + versions" where
  "push_version versions path =
     (case split_slash path of
        [] \<Rightarrow> Inl TypeError
      | version # rest \<Rightarrow>
          (case assertIsWcagVersion version of
             Inl e \<Rightarrow> Inl e
           | Inr _ \<Rightarrow>
               (case rest of
                  [] \<Rightarrow> Inl TypeError
                | filename # _ \<Rightarrow>
                    Inr (map (\<lambda>(key, list).
                           if key = version then (key, list @ [basename_html filename])
                           else (key, list)) versions))))"

fun push_versions :: "versions \<Rightarrow> string list \<Rightarrow> error + versions" where
  "push_versions versions [] = Inr versions"
| "push_versions versions (path # paths) =
     (case push_version versions path of
        Inl e \<Rightarrow> Inl e
      | Inr versions' \<Rightarrow> push_versions versions' paths)"

text \<open>The second loop: every key is asserted again and its list sorted.\<close>

fun sort_versions :: "versions \<Rightarrow> error + versions" where
  "sort_versions [] = Inr []"
| "sort_versions ((version, list) # rest) =
     (case assertIsWcagVersion version of
        Inl e \<Rightarrow> Inl e
      | Inr _ \<Rightarrow>
          (case sort_versions rest of
             Inl e \<Rightarrow> Inl e
           | Inr rest' \<Rightarrow> Inr ((version, sort_by compare_strings list) # rest')))"

text \<open>
  \<^verbatim>\<open>getGuidelinesVersions\<close>: \<open>paths\<close> is what
  \<^verbatim>\<open>glob("*/*.html", { cwd: "understanding" })\<close> returned.
\<close>

definition getGuidelinesVersions :: "string list \<Rightarrow> error + versions" where
  "getGuidelinesVersions paths =
     (case push_versions [(''20'', []), (''21'', []), (''22'', [])] paths of
        Inl e \<Rightarrow> Inl e
      | Inr versions \<Rightarrow> sort_versions versions)"

text \<open>
  \<^verbatim>\<open>getInvertedGuidelinesVersions\<close>: \<^verbatim>\<open>Object.entries\<close> lists the keys \<^verbatim>\<open>20\<close>,
  \<^verbatim>\<open>21\<close>, \<^verbatim>\<open>22\<close> in this order, and each assignment replaces what the key held
  (or does nothing, for the basename \<^verbatim>\<open>__proto__\<close>).
\<close>

definition invert_versions :: "versions \<Rightarrow> (string \<rightharpoonup> string)" where
  "invert_versions versions =
     fold (\<lambda>(version, basenames) invertedVersions.
             fold (\<lambda>basename invertedVersions. set_property invertedVersions basename version)
               basenames invertedVersions)
       versions Map.empty"

definition getInvertedGuidelinesVersions :: "string list \<Rightarrow> error + (string \<rightharpoonup> string)" where
  "getInvertedGuidelinesVersions paths =
     (case getGuidelinesVersions paths of
        Inl e \<Rightarrow> Inl e
      | Inr versions \<Rightarrow> Inr (invert_versions versions))"

subsection \<open>The document\<close>

text \<open>
  The tree \<^verbatim>\<open>flattenDomFromFile\<close> returns: text nodes and elements with a tag name,
  attributes and children. \<^verbatim>\<open>$(selector, el)\<close> gives the descendants of \<open>el\<close> that
  match, in document order, and \<^verbatim>\<open>text()\<close> joins the text of every matched element.
\<close>

datatype dom = Text string | Element string "(string \<times> string) list" "dom list"

fun descendants :: "dom \<Rightarrow> dom list" where
  "descendants (Text s) = []"
| "descendants (Element tag attribs children) =
     concat (map (\<lambda>child. child # descendants child) children)"

fun attr :: "dom \<Rightarrow> string \<Rightarrow> string option" where
  "attr (Text s) a = None"
| "attr (Element tag attribs children) a = map_of attribs a"

fun split_space :: "string \<Rightarrow> string list" where
  "split_space [] = [[]]"
| "split_space (c # cs) =
     (if is_space c then [] # split_space cs
      else (case split_space cs of
              [] \<Rightarrow> [[c]]
            | token # tokens \<Rightarrow> (c # token) # tokens))"

definition has_class :: "string \<Rightarrow> dom \<Rightarrow> bool" where
  "has_class c el =
     (case attr el ''class'' of
        None \<Rightarrow> False
      | Some v \<Rightarrow> c \<in> set (split_space v))"

fun has_tag :: "string \<Rightarrow> dom \<Rightarrow> bool" where
  "has_tag t (Text s) = False"
| "has_tag t (Element tag attribs children) = (tag = t)"

datatype selector = Tag string | Class string | TagClass string string

fun matches :: "selector \<Rightarrow> dom \<Rightarrow> bool" where
  "matches (Tag t) el = has_tag t el"
| "matches (Class c) el = has_class c el"
| "matches (TagClass t c) el = (has_tag t el \<and> has_class c el)"

definition select :: "selector \<Rightarrow> dom \<Rightarrow> dom list" where
  "select sel el = filter (matches sel) (descendants el)"

fun text_of :: "dom \<Rightarrow> string" where
  "text_of (Text s) = s"
| "text_of (Element tag attribs children) = concat (map text_of children)"

definition text_content :: "dom list \<Rightarrow> string" where
  "text_content els = concat (map text_of els)"

definition trim :: "string \<Rightarrow> string" where
  "trim s = rev (dropWhile is_space (rev (dropWhile is_space s)))"

text \<open>A number in a template literal: its decimal digits.\<close>

fun string_of_nat :: "nat \<Rightarrow> string" where
  "string_of_nat n =
     (if n < 10 then [''0123456789'' ! n]
      else string_of_nat (n div 10) @ [''0123456789'' ! (n mod 10)])"

declare string_of_nat.simps [simp del]

subsection \<open>The taxonomy\<close>

record DocNode =
  id :: "string option"
  name :: string
  type :: string

record SuccessCriterion = DocNode +
  num :: string
  level :: string
  version :: string

record Guideline = DocNode +
  num :: string
  version :: string
  successCriteria :: "SuccessCriterion list"

record Principle = DocNode +
  num :: string
  version :: string
  guidelines :: "Guideline list"

text \<open>
  The three selections of \<^verbatim>\<open>getPrinciples\<close>: \<^verbatim>\<open>$(".principle")\<close> in the document,
  \<^verbatim>\<open>$(".guideline", el)\<close> in a principle and \<^verbatim>\<open>$(".sc", guidelineEl)\<close> in a guideline.
\<close>

definition principle_els :: "dom \<Rightarrow> dom list" where
  "principle_els document = select (Class ''principle'') document"

definition guideline_els :: "dom \<Rightarrow> dom list" where
  "guideline_els el = select (Class ''guideline'') el"

definition sc_els :: "dom \<Rightarrow> dom list" where
  "sc_els guidelineEl = select (Class ''sc'') guidelineEl"

text \<open>
  \<^verbatim>\<open>each((i, el) => ...)\<close> with a callback that pushes one node: the callback runs on
  the elements in order with their index, and an exception ends the iteration. The three
  callbacks of \<^verbatim>\<open>getPrinciples\<close> follow, innermost first.
\<close>

fun each :: "(nat \<Rightarrow> 'a \<Rightarrow> error + 'b) \<Rightarrow> nat \<Rightarrow> 'a list \<Rightarrow> error + 'b list" where
  "each f i [] = Inr []"
| "each f i (el # els) =
     (case f i el of
        Inl e \<Rightarrow> Inl e
      | Inr node \<Rightarrow>
          (case each f (Suc i) els of
             Inl e \<Rightarrow> Inl e
           | Inr nodes \<Rightarrow> Inr (node # nodes)))"

definition sc_node ::
  "(string \<rightharpoonup> string) \<Rightarrow> nat \<Rightarrow> nat \<Rightarrow> nat \<Rightarrow> dom \<Rightarrow> error + SuccessCriterion" where
  "sc_node versions i j k scEl =
     (let resolvedVersion =
            string_of_property (get_property versions (to_string (attr scEl ''id'')))
      in case assertIsWcagVersion resolvedVersion of
           Inl e \<Rightarrow> Inl e
         | Inr _ \<Rightarrow>
             Inr \<lparr>DocNode.id = attr scEl ''id'',
                  name = trim (text_content (select (Tag ''h4'') scEl)),
                  type = ''SC'',
                  SuccessCriterion.num =
                    string_of_nat (i + 1) @ ''.'' @ string_of_nat (j + 1) @ ''.'' @
                    string_of_nat (k + 1),
                  level = trim (text_content (select (TagClass ''p'' ''conformance-level'') scEl)),
                  SuccessCriterion.version = ''WCAG'' @ resolvedVersion\<rparr>)"

definition guideline_node ::
  "(string \<rightharpoonup> string) \<Rightarrow> nat \<Rightarrow> nat \<Rightarrow> dom \<Rightarrow> error + Guideline" where
  "guideline_node versions i j guidelineEl =
     (case each (sc_node versions i j) 0 (sc_els guidelineEl) of
        Inl e \<Rightarrow> Inl e
      | Inr successCriteria' \<Rightarrow>
          Inr \<lparr>DocNode.id = attr guidelineEl ''id'',
               name = trim (text_content (select (Tag ''h3'') guidelineEl)),
               type = ''Guideline'',
               Guideline.num = string_of_nat (i + 1) @ ''.'' @ string_of_nat (j + 1),
               Guideline.version =
                 (if attr guidelineEl ''id'' = Some ''input-modalities''
                  then ''WCAG21'' else ''WCAG20''),
               successCriteria = successCriteria'\<rparr>)"

definition principle_node :: "(string \<rightharpoonup> string) \<Rightarrow> nat \<Rightarrow> dom \<Rightarrow> error + Principle" where
  "principle_node versions i el =
     (case each (guideline_node versions i) 0 (guideline_els el) of
        Inl e \<Rightarrow> Inl e
      | Inr guidelines' \<Rightarrow>
          Inr \<lparr>DocNode.id = attr el ''id'',
               name = trim (text_content (select (Tag ''h2'') el)),
               type = ''Principle'',
               Principle.num = string_of_nat (i + 1),
               Principle.version = ''WCAG20'',
               guidelines = guidelines'\<rparr>)"

text \<open>
  \<^verbatim>\<open>getPrinciples\<close>: \<open>paths\<close> is the listing of \<^verbatim>\<open>understanding\<close> that
  \<^verbatim>\<open>getInvertedGuidelinesVersions\<close> reads, \<open>document\<close> the root of
  \<^verbatim>\<open>guidelines/index.html\<close>.
\<close>

definition getPrinciples :: "string list \<Rightarrow> dom \<Rightarrow> error + Principle list" where
  "getPrinciples paths document =
     (case getInvertedGuidelinesVersions paths of
        Inl e \<Rightarrow> Inl e
      | Inr versions \<Rightarrow> each (principle_node versions) 0 (principle_els document))"

section \<open>eleventy.config.ts\<close>

text \<open>
  \<^verbatim>\<open>baseUrls\<close> for the version \<^verbatim>\<open>22\<close>, as the two tests of
  \<^verbatim>\<open>process.env.WCAG_MODE\<close> leave it.
\<close>

datatype wcag_mode = Editors | Publication | Unset

record BaseUrls =
  guidelines :: string
  techniques :: string
  understanding :: string

definition baseUrls :: "wcag_mode \<Rightarrow> BaseUrls" where
  "baseUrls mode =
     (case mode of
        Editors \<Rightarrow>
          \<lparr>BaseUrls.guidelines = ''https://w3c.github.io/wcag/guidelines/'',
           techniques = ''https://w3c.github.io/wcag/techniques/'',
           understanding = ''https://w3c.github.io/wcag/understanding/''\<rparr>
      | Publication \<Rightarrow>
          \<lparr>BaseUrls.guidelines = ''https://www.w3.org/TR/WCAG22/'',
           techniques = ''https://www.w3.org/WAI/WCAG22/Techniques/'',
           understanding = ''https://www.w3.org/WAI/WCAG22/Understanding/''\<rparr>
      | Unset \<Rightarrow>
          \<lparr>BaseUrls.guidelines = ''https://www.w3.org/TR/WCAG22/'',
           techniques = ''/techniques/'',
           understanding = ''/understanding/''\<rparr>)"

text \<open>The fields of \<^verbatim>\<open>this.page\<close> the filters read.\<close>

record Page =
  inputPath :: string
  filePathStem :: string

text \<open>
  The fields the filters read from an entry of \<^verbatim>\<open>flatTechniques\<close> and of
  \<^verbatim>\<open>flatGuidelines\<close>; the two maps are parameters of the filters.
\<close>

record FlatTechnique =
  technology :: string
  truncatedTitle :: string

record FlatGuideline =
  num :: string
  name :: string

text \<open>
  The argument of a filter is one id or an array of ids; an id is a string or some
  other value, for which the filter throws.
\<close>

datatype id_value = Str string | NotString

datatype ids_value = One id_value | Many "id_value list"

fun to_array :: "ids_value \<Rightarrow> id_value list" where
  "to_array (One v) = [v]"
| "to_array (Many vs) = vs"

definition starts_with :: "string \<Rightarrow> string \<Rightarrow> bool" where
  "starts_with s prefix = (take (length prefix) s = prefix)"

text \<open>
  \<^verbatim>\<open>/^\/techniques\/.*\//.test(s)\<close>: after the prefix, a slash that no line
  terminator precedes (the dot matches no line terminator).
\<close>

definition is_line_terminator :: "char \<Rightarrow> bool" where
  "is_line_terminator c = (c \<in> set [CHR 0x0A, CHR 0x0D])"

definition in_techniques_subdirectory :: "string \<Rightarrow> bool" where
  "in_techniques_subdirectory s =
     (starts_with s ''/techniques/'' \<and>
      CHR ''/'' \<in> set (takeWhile (\<lambda>c. \<not> is_line_terminator c)
                        (drop (length ''/techniques/'') s)))"

fun join :: "string \<Rightarrow> string list \<Rightarrow> string" where
  "join sep [] = []"
| "join sep [x] = x"
| "join sep (x # y # zs) = x @ sep @ join sep (y # zs)"

definition and_separator :: string where
  "and_separator = [CHR 0x0A] @ ''and'' @ [CHR 0x0A]"

text \<open>\<^verbatim>\<open>compact\<close> of lodash on an array of strings and \<^verbatim>\<open>undefined\<close>: the falsy values go.\<close>

fun compact :: "string option list \<Rightarrow> string list" where
  "compact [] = []"
| "compact (None # links) = compact links"
| "compact (Some link # links) = (if link = [] then compact links else link # compact links)"

text \<open>
  \<^verbatim>\<open>map\<close> with a callback that may warn and may throw: the warnings written to the
  console so far are kept, and an exception ends the call.
\<close>

fun map_logged :: "('a \<Rightarrow> string list \<times> (error + 'b)) \<Rightarrow> 'a list \<Rightarrow> string list \<times> (error + 'b list)" where
  "map_logged f [] = ([], Inr [])"
| "map_logged f (x # xs) =
     (case f x of
        (warnings, Inl e) \<Rightarrow> (warnings, Inl e)
      | (warnings, Inr y) \<Rightarrow>
          (case map_logged f xs of
             (warnings', Inl e) \<Rightarrow> (warnings @ warnings', Inl e)
           | (warnings', Inr ys) \<Rightarrow> (warnings @ warnings', Inr (y # ys))))"

definition linkTechniques_link ::
  "Page \<Rightarrow> BaseUrls \<Rightarrow> (string \<rightharpoonup> FlatTechnique) \<Rightarrow> id_value \<Rightarrow> string list \<times> (error + string option)" where
  \<open>linkTechniques_link page urls flatTechniques v =
     (case v of
        NotString \<Rightarrow> ([], Inl InvalidId)
      | Str i \<Rightarrow>
          (let technique = get_property flatTechniques i
           in if technique = Undefined
              then ([''linkTechniques in '' @ inputPath page @ '': '' @
                     ''skipping unresolvable technique id '' @ i], Inr None)
              else
                (let urlBase =
                       (if in_techniques_subdirectory (filePathStem page) then ''../''
                        else if starts_with (filePathStem page) ''/techniques'' then []
                        else BaseUrls.techniques urls);
                     label = i @ '': '' @ read_field truncatedTitle technique
                 in ([], Inr (Some (''<a href="'' @ urlBase @ read_field technology technique @ ''/'' @
                                    i @ ''">'' @ label @ ''</a>''))))))\<close>

definition linkTechniques ::
  "Page \<Rightarrow> BaseUrls \<Rightarrow> (string \<rightharpoonup> FlatTechnique) \<Rightarrow> ids_value \<Rightarrow> string list \<times> (error + string)" where
  "linkTechniques page urls flatTechniques ids =
     (case map_logged (linkTechniques_link page urls flatTechniques) (to_array ids) of
        (warnings, Inl e) \<Rightarrow> (warnings, Inl e)
      | (warnings, Inr links) \<Rightarrow> (warnings, Inr (join and_separator (compact links))))"

text \<open>
  In \<^verbatim>\<open>linkUnderstanding\<close> the branch that warns does not return: the callback goes
  on to read \<^verbatim>\<open>guideline.num\<close> of the undefined entry, which is a \<^verbatim>\<open>TypeError\<close>.
\<close>

definition linkUnderstanding_link ::
  "Page \<Rightarrow> BaseUrls \<Rightarrow> (string \<rightharpoonup> FlatGuideline) \<Rightarrow> id_value \<Rightarrow> string list \<times> (error + string)" where
  \<open>linkUnderstanding_link page urls flatGuidelines v =
     (case v of
        NotString \<Rightarrow> ([], Inl InvalidId)
      | Str i \<Rightarrow>
          (let guideline = get_property flatGuidelines i;
               warnings =
                 (if guideline = Undefined
                  then [''linkUnderstanding in '' @ inputPath page @ '': '' @
                        ''skipping unresolvable guideline shortname '' @ i]
                  else []);
               urlBase =
                 (if starts_with (filePathStem page) ''/understanding/'' then []
                  else BaseUrls.understanding urls)
           in if guideline = Undefined then (warnings, Inl TypeError)
              else
                (let label = read_field FlatGuideline.num guideline @ '': '' @
                             read_name FlatGuideline.name guideline
                 in (warnings, Inr (''<a href="'' @ urlBase @ i @ ''">'' @ label @ ''</a>'')))))\<close>

definition linkUnderstanding ::
  "Page \<Rightarrow> BaseUrls \<Rightarrow> (string \<rightharpoonup> FlatGuideline) \<Rightarrow> ids_value \<Rightarrow> string list \<times> (error + string)" where
  "linkUnderstanding page urls flatGuidelines ids =
     (case map_logged (linkUnderstanding_link page urls flatGuidelines) (to_array ids) of
        (warnings, Inl e) \<Rightarrow> (warnings, Inl e)
      | (warnings, Inr links) \<Rightarrow> (warnings, Inr (join and_separator links)))"

section \<open>Notions used in the statements\<close>

text \<open>
  The basenames of the discovered files of one version partition, in discovery order, and
  the paths the first loop of \<^verbatim>\<open>getGuidelinesVersions\<close> accepts.
\<close>

definition basenames_under :: "string \<Rightarrow> string list \<Rightarrow> string list" where
  "basenames_under v paths =
     concat (map (\<lambda>path. case split_slash path of
                            segment # filename # rest \<Rightarrow>
                              if segment = v then [basename_html filename] else []
                          | _ \<Rightarrow> []) paths)"

definition well_placed :: "string \<Rightarrow> bool" where
  "well_placed path =
     (case split_slash path of
        segment # filename # rest \<Rightarrow> is_wcag_version segment
      | _ \<Rightarrow> False)"

text \<open>
  A small listing of \<^verbatim>\<open>understanding\<close> and a small index document with two
  principles, the second with the guideline \<^verbatim>\<open>input-modalities\<close> in second place.
\<close>

definition example_understanding :: "string list" where
  "example_understanding =
     [''20/non-text-content.html'', ''21/pointer-gestures.html'', ''20/keyboard.html'']"

definition example_index :: dom where
  "example_index =
     Element ''body'' []
       [Element ''section'' [(''class'', ''principle''), (''id'', ''perceivable'')]
          [Element ''h2'' [] [Text ''Perceivable''],
           Element ''section'' [(''class'', ''guideline''), (''id'', ''text-alternatives'')]
             [Element ''h3'' [] [Text ''Text Alternatives''],
              Element ''section'' [(''class'', ''sc''), (''id'', ''non-text-content'')]
                [Element ''h4'' [] [Text ''Non-text Content''],
                 Element ''p'' [(''class'', ''conformance-level'')] [Text ''A'']]]],
        Element ''section'' [(''class'', ''principle''), (''id'', ''operable'')]
          [Element ''h2'' [] [Text ''Operable''],
           Element ''section'' [(''class'', ''guideline''), (''id'', ''keyboard-accessible'')]
             [Element ''h3'' [] [Text ''Keyboard Accessible''],
              Element ''section'' [(''class'', ''sc''), (''id'', ''keyboard'')]
                [Element ''h4'' [] [Text ''Keyboard''],
                 Element ''p'' [(''class'', ''conformance-level'')] [Text ''A'']]],
           Element ''section'' [(''class'', ''guideline''), (''id'', ''input-modalities'')]
             [Element ''h3'' [] [Text ''Input Modalities''],
              Element ''section'' [(''class'', ''sc''), (''id'', ''pointer-gestures'')]
                [Element ''h4'' [] [Text ''Pointer Gestures''],
                 Element ''p'' [(''class'', ''conformance-level'')] [Text ''A'']]]]]"

text \<open>The same document with the two guidelines of the second principle in the other order.\<close>

definition example_index_swapped :: dom where
  "example_index_swapped =
     Element ''body'' []
       [Element ''section'' [(''class'', ''principle''), (''id'', ''perceivable'')]
          [Element ''h2'' [] [Text ''Perceivable''],
           Element ''section'' [(''class'', ''guideline''), (''id'', ''text-alternatives'')]
             [Element ''h3'' [] [Text ''Text Alternatives''],
              Element ''section'' [(''class'', ''sc''), (''id'', ''non-text-content'')]
                [Element ''h4'' [] [Text ''Non-text Content''],
                 Element ''p'' [(''class'', ''conformance-level'')] [Text ''A'']]]],
        Element ''section'' [(''class'', ''principle''), (''id'', ''operable'')]
          [Element ''h2'' [] [Text ''Operable''],
           Element ''section'' [(''class'', ''guideline''), (''id'', ''input-modalities'')]
             [Element ''h3'' [] [Text ''Input Modalities''],
              Element ''section'' [(''class'', ''sc''), (''id'', ''pointer-gestures'')]
                [Element ''h4'' [] [Text ''Pointer Gestures''],
                 Element ''p'' [(''class'', ''conformance-level'')] [Text ''A'']]],
           Element ''section'' [(''class'', ''guideline''), (''id'', ''keyboard-accessible'')]
             [Element ''h3'' [] [Text ''Keyboard Accessible''],
              Element ''section'' [(''class'', ''sc''), (''id'', ''keyboard'')]
                [Element ''h4'' [] [Text ''Keyboard''],
                 Element ''p'' [(''class'', ''conformance-level'')] [Text ''A'']]]]]"

definition example_principles :: "Principle list" where
  "example_principles =
     [\<lparr>DocNode.id = Some ''perceivable'', name = ''Perceivable'', type = ''Principle'',
       Principle.num = ''1'', version = ''WCAG20'',
       guidelines =
         [\<lparr>DocNode.id = Some ''text-alternatives'', name = ''Text Alternatives'',
           type = ''Guideline'', Guideline.num = ''1.1'', version = ''WCAG20'',
           successCriteria =
             [\<lparr>DocNode.id = Some ''non-text-content'', name = ''Non-text Content'',
               type = ''SC'', SuccessCriterion.num = ''1.1.1'', level = ''A'',
               version = ''WCAG20''\<rparr>]\<rparr>]\<rparr>,
      \<lparr>DocNode.id = Some ''operable'', name = ''Operable'', type = ''Principle'',
       Principle.num = ''2'', version = ''WCAG20'',
       guidelines =
         [\<lparr>DocNode.id = Some ''keyboard-accessible'', name = ''Keyboard Accessible'',
           type = ''Guideline'', Guideline.num = ''2.1'', version = ''WCAG20'',
           successCriteria =
             [\<lparr>DocNode.id = Some ''keyboard'', name = ''Keyboard'', type = ''SC'',
               SuccessCriterion.num = ''2.1.1'', level = ''A'', version = ''WCAG20''\<rparr>]\<rparr>,
          \<lparr>DocNode.id = Some ''input-modalities'', name = ''Input Modalities'',
           type = ''Guideline'', Guideline.num = ''2.2'', version = ''WCAG21'',
           successCriteria =
             [\<lparr>DocNode.id = Some ''pointer-gestures'', name = ''Pointer Gestures'',
               type = ''SC'', SuccessCriterion.num = ''2.2.1'', level = ''A'',
               version = ''WCAG21''\<rparr>]\<rparr>]\<rparr>]"

section \<open>Properties of the technique catalog\<close>

lemmas getTechniques_eval =
  getTechniques_def technologies_def technologyTitles_def push_technique_def
  assertIsTechnology_def object_prototype_names_def basename_html_def sort_by_def
  compare_ids_def is_digit_def is_space_def

lemma push_technique_Inr_h1:
  "push_technique docs cat path = Inr cat' \<Longrightarrow> docs (''techniques/'' @ path) \<noteq> None"
  by (auto simp: push_technique_def split: list.splits sum.splits option.splits if_splits)

lemma push_all_Inr_h1:
  "push_all docs cat paths = Inr cat' \<Longrightarrow> path \<in> set paths \<Longrightarrow>
   docs (''techniques/'' @ path) \<noteq> None"
proof (induction paths arbitrary: cat)
  case Nil
  then show ?case by simp
next
  case (Cons p ps)
  then show ?case
    by (auto split: sum.splits dest: push_technique_Inr_h1)
qed

lemma push_technique_Inl:
  "push_technique docs cat path = Inl e \<Longrightarrow>
     e = TypeError \<or> assertIsTechnology (hd (split_slash path)) = Inl e"
  by (auto simp: push_technique_def split: list.splits sum.splits option.splits if_splits)

lemma push_all_Inl:
  "push_all docs cat paths = Inl e \<Longrightarrow>
     e = TypeError \<or> (\<exists>path\<in>set paths. assertIsTechnology (hd (split_slash path)) = Inl e)"
proof (induction paths arbitrary: cat)
  case Nil
  then show ?case by simp
next
  case (Cons p ps)
  then show ?case
    by (auto split: sum.splits dest: push_technique_Inl)
qed

lemma push_technique_keys:
  "push_technique docs cat path = Inr cat' \<Longrightarrow>
     map fst cat' = map fst cat \<and> hd (split_slash path) \<in> set (map fst cat)"
  by (auto simp: push_technique_def split: list.splits sum.splits option.splits if_splits)

lemma push_all_keys:
  "push_all docs cat paths = Inr cat' \<Longrightarrow> path \<in> set paths \<Longrightarrow>
     hd (split_slash path) \<in> set (map fst cat)"
proof (induction paths arbitrary: cat)
  case Nil
  then show ?case by simp
next
  case (Cons p ps)
  from Cons.prems(1) obtain c where c: "push_technique docs cat p = Inr c"
    and rest: "push_all docs c ps = Inr cat'"
    by (auto split: sum.splits)
  from push_technique_keys [OF c] have keys: "map fst c = map fst cat"
    and here: "hd (split_slash p) \<in> set (map fst cat)" by simp_all
  show ?case
  proof (cases "path = p")
    case True
    with here show ?thesis by simp
  next
    case False
    with Cons.prems(2) have "path \<in> set ps" by simp
    from Cons.IH [OF rest this] keys show ?thesis by simp
  qed
qed

text \<open>
  A path whose first segment is not a key of \<^verbatim>\<open>technologyTitles\<close> is never skipped:
  the whole call fails.
\<close>

lemma getTechniques_unrecognized_partition_fails:
  assumes "path \<in> set paths" and "hd (split_slash path) \<notin> set technologies"
  shows "\<exists>e. getTechniques paths docs = Inl e"
proof (cases "push_all docs (map (\<lambda>t. (t, [])) technologies) paths")
  case (Inl e)
  then show ?thesis by (simp add: getTechniques_def)
next
  case (Inr c)
  from push_all_keys [OF Inr assms(1)] assms(2) show ?thesis by (simp add: comp_def)
qed

lemma push_all_append:
  "push_all docs cat (before @ paths) =
     (case push_all docs cat before of
        Inl e \<Rightarrow> Inl e
      | Inr cat' \<Rightarrow> push_all docs cat' paths)"
  by (induction before arbitrary: cat) (auto split: sum.splits)

text \<open>
  The first path of an unrecognized partition, when the paths before it were accepted:
  the call stops there with the error that names the partition, unless the name is one
  that objects inherit.
\<close>

lemma getTechniques_unrecognized_partition_reported:
  assumes "push_all docs (map (\<lambda>t. (t, [])) technologies) before = Inr cat"
    and "split_slash path = partition_name # rest"
    and "partition_name \<notin> set technologies"
    and "partition_name \<notin> set object_prototype_names"
  shows "getTechniques (before @ path # after) docs = Inl (InvalidTechnology partition_name)"
  using assms
  by (simp add: getTechniques_def push_all_append push_technique_def assertIsTechnology_def
        technologies_def)

text \<open>
  Claim C1. The second loop compares the digits of two ids as strings, not as numbers:
  for the ids G10, G2, G1, found in this order, the list of the technology is
  G1, G10, G2, since the string 10 is below the string 2.
\<close>

theorem getTechniques_compares_digits_as_strings:
  "getTechniques [''general/G10.html'', ''general/G2.html'', ''general/G1.html'']
     (\<lambda>path. Some ''Title'') =
   Inr [(''aria'', []), (''client-side-script'', []), (''css'', []), (''failures'', []),
        (''flash'', []),
        (''general'',
         [\<lparr>Technique.id = ''G1'', titleHtml = ''Title''\<rparr>,
          \<lparr>Technique.id = ''G10'', titleHtml = ''Title''\<rparr>,
          \<lparr>Technique.id = ''G2'', titleHtml = ''Title''\<rparr>]),
        (''html'', []), (''pdf'', []), (''server-side-script'', []), (''silverlight'', []),
        (''smil'', []), (''text'', [])]"
  by (simp add: getTechniques_eval)

text \<open>
  Claim C3. Only the first run of two or more white-space characters of the heading's
  markup becomes one space: the replacement is not global, so a second run stays as it is.
\<close>

theorem getTechniques_collapses_first_run_only:
  "getTechniques [''general/G1.html''] (\<lambda>path. Some ''Using  a  title'') =
   Inr [(''aria'', []), (''client-side-script'', []), (''css'', []), (''failures'', []),
        (''flash'', []),
        (''general'', [\<lparr>Technique.id = ''G1'', titleHtml = ''Using a  title''\<rparr>]),
        (''html'', []), (''pdf'', []), (''server-side-script'', []), (''silverlight'', []),
        (''smil'', []), (''text'', [])]"
  by (simp add: getTechniques_eval)

text \<open>
  Claim C9. A directory named after a property that objects inherit, such as
  \<^verbatim>\<open>constructor\<close>, passes \<^verbatim>\<open>assertIsTechnology\<close> although it is no technology; the
  call then fails with a \<^verbatim>\<open>TypeError\<close>, which does not name the directory. Any other
  unrecognized directory is reported by its name.
\<close>

theorem getTechniques_inherited_name_not_reported:
  "''constructor'' \<notin> set technologies \<and>
   assertIsTechnology ''constructor'' = Inr () \<and>
   getTechniques [''constructor/C1.html''] (\<lambda>path. Some ''Title'') = Inl TypeError \<and>
   getTechniques [''controls/C1.html''] (\<lambda>path. Some ''Title'') =
     Inl (InvalidTechnology ''controls'')"
  by (simp add: getTechniques_eval)

text \<open>
  Claim C10. When one of the discovered documents has no \<^verbatim>\<open>h1\<close> element, the call
  returns no catalog at all; the failure is the \<^verbatim>\<open>TypeError\<close> of reading from
  \<^verbatim>\<open>null\<close> whenever every first segment passes \<^verbatim>\<open>assertIsTechnology\<close>. So a call
  that returns a catalog found a heading in every discovered document.
\<close>

theorem getTechniques_missing_h1_fails:
  assumes "path \<in> set paths" and "docs (''techniques/'' @ path) = None"
  shows "(\<exists>e. getTechniques paths docs = Inl e) \<and>
         ((\<forall>p\<in>set paths. assertIsTechnology (hd (split_slash p)) = Inr ()) \<longrightarrow>
            getTechniques paths docs = Inl TypeError)"
proof (cases "push_all docs (map (\<lambda>t. (t, [])) technologies) paths")
  case (Inl e)
  with push_all_Inl [of docs _ paths e] show ?thesis
    by (auto simp: getTechniques_def)
next
  case (Inr c)
  with assms push_all_Inr_h1 [of docs _ paths c path] show ?thesis by blast
qed

theorem getTechniques_missing_h1_fails_witness:
  "getTechniques [''general/G1.html'', ''css/C7.html'']
     (\<lambda>p. if p = ''techniques/css/C7.html'' then None else Some ''Title'') = Inl TypeError"
  using getTechniques_missing_h1_fails [of "''css/C7.html''" "[''general/G1.html'', ''css/C7.html'']"
    "\<lambda>p. if p = ''techniques/css/C7.html'' then None else Some ''Title''"]
  by (simp add: assertIsTechnology_def technologyTitles_def)

section \<open>Properties of the taxonomy\<close>

lemma each_Inr:
  "each f i els = Inr nodes \<Longrightarrow>
     length nodes = length els \<and> (\<forall>k<length els. f (i + k) (els ! k) = Inr (nodes ! k))"
proof (induction els arbitrary: i nodes)
  case Nil
  then show ?case by simp
next
  case (Cons el els)
  from Cons.prems obtain node rest where here: "f i el = Inr node"
    and rest: "each f (Suc i) els = Inr rest" and nodes: "nodes = node # rest"
    by (auto split: sum.splits)
  from Cons.IH [OF rest] have len: "length rest = length els"
    and ih: "\<forall>k<length els. f (Suc i + k) (els ! k) = Inr (rest ! k)" by simp_all
  have "f (i + k) ((el # els) ! k) = Inr (nodes ! k)" if "k < length (el # els)" for k
  proof (cases k)
    case 0
    with here nodes show ?thesis by simp
  next
    case (Suc m)
    with that ih nodes show ?thesis by simp
  qed
  with len nodes show ?case by simp
qed

lemma each_Inl:
  "each f i els = Inl e \<Longrightarrow> \<exists>k<length els. f (i + k) (els ! k) = Inl e"
proof (induction els arbitrary: i)
  case Nil
  then show ?case by simp
next
  case (Cons el els)
  show ?case
  proof (cases "f i el")
    case (Inl e')
    with Cons.prems have "f (i + 0) ((el # els) ! 0) = Inl e" by simp
    then show ?thesis by blast
  next
    case (Inr node)
    with Cons.prems have "each f (Suc i) els = Inl e" by (auto split: sum.splits)
    from Cons.IH [OF this] obtain k where "k < length els" "f (Suc i + k) (els ! k) = Inl e"
      by blast
    then have "Suc k < length (el # els)" "f (i + Suc k) ((el # els) ! Suc k) = Inl e" by simp_all
    then show ?thesis by blast
  qed
qed



lemma getPrinciples_Inr:
  assumes "getPrinciples paths document = Inr principles"
  shows "\<exists>versions. getInvertedGuidelinesVersions paths = Inr versions \<and>
           each (principle_node versions) 0 (principle_els document) = Inr principles"
  using assms by (auto simp: getPrinciples_def split: sum.splits)

lemma principle_node_Inr:
  assumes "principle_node versions i el = Inr P"
  shows "each (guideline_node versions i) 0 (guideline_els el) = Inr (Principle.guidelines P) \<and>
         DocNode.id P = attr el ''id'' \<and> Principle.num P = string_of_nat (i + 1) \<and>
         Principle.version P = ''WCAG20''"
  using assms by (auto simp: principle_node_def split: sum.splits)

lemma guideline_node_Inr:
  assumes "guideline_node versions i j el = Inr G"
  shows "each (sc_node versions i j) 0 (sc_els el) = Inr (successCriteria G) \<and>
         DocNode.id G = attr el ''id'' \<and>
         Guideline.num G = string_of_nat (i + 1) @ ''.'' @ string_of_nat (j + 1) \<and>
         Guideline.version G =
           (if attr el ''id'' = Some ''input-modalities'' then ''WCAG21'' else ''WCAG20'')"
  using assms by (auto simp: guideline_node_def split: sum.splits)

lemma sc_node_Inr:
  assumes "sc_node versions i j k el = Inr S"
  shows "DocNode.id S = attr el ''id'' \<and>
         SuccessCriterion.num S =
           string_of_nat (i + 1) @ ''.'' @ string_of_nat (j + 1) @ ''.'' @ string_of_nat (k + 1) \<and>
         level S = trim (text_content (select (TagClass ''p'' ''conformance-level'') el)) \<and>
         is_wcag_version (string_of_property (get_property versions (to_string (attr el ''id'')))) \<and>
         SuccessCriterion.version S = ''WCAG'' @ string_of_property (get_property versions (to_string (attr el ''id'')))"
  using assms
  by (auto simp: sc_node_def assertIsWcagVersion_def Let_def split: sum.splits if_splits)

lemma sc_node_Inl:
  "sc_node versions i j k el = Inl e \<Longrightarrow>
     e = UnexpectedVersion (string_of_property (get_property versions (to_string (attr el ''id'')))) \<and>
     \<not> is_wcag_version (string_of_property (get_property versions (to_string (attr el ''id''))))"
  by (auto simp: sc_node_def assertIsWcagVersion_def Let_def split: sum.splits if_splits)

text \<open>The nodes of a returned tree, position by position.\<close>

lemma principles_at:
  assumes "getPrinciples paths document = Inr principles"
  shows "\<exists>versions. getInvertedGuidelinesVersions paths = Inr versions \<and>
           length principles = length (principle_els document) \<and>
           (\<forall>p<length principles.
              principle_node versions p (principle_els document ! p) = Inr (principles ! p))"
proof -
  from getPrinciples_Inr [OF assms] obtain versions
    where v: "getInvertedGuidelinesVersions paths = Inr versions"
      and e: "each (principle_node versions) 0 (principle_els document) = Inr principles"
    by blast
  from each_Inr [OF e] v show ?thesis by auto
qed

lemma guidelines_at:
  assumes "principle_node versions p el = Inr P"
  shows "length (Principle.guidelines P) = length (guideline_els el) \<and>
         (\<forall>g<length (Principle.guidelines P).
            guideline_node versions p g (guideline_els el ! g) = Inr (Principle.guidelines P ! g))"
proof -
  from principle_node_Inr [OF assms]
  have "each (guideline_node versions p) 0 (guideline_els el) = Inr (Principle.guidelines P)"
    by simp
  from each_Inr [OF this] show ?thesis by auto
qed

lemma successCriteria_at:
  assumes "guideline_node versions p g el = Inr G"
  shows "length (successCriteria G) = length (sc_els el) \<and>
         (\<forall>s<length (successCriteria G).
            sc_node versions p g s (sc_els el ! s) = Inr (successCriteria G ! s))"
proof -
  from guideline_node_Inr [OF assms]
  have "each (sc_node versions p g) 0 (sc_els el) = Inr (successCriteria G)"
    by simp
  from each_Inr [OF this] show ?thesis by auto
qed

text \<open>
  Claim C6. In a returned tree the nodes are the matched elements in document order, one
  node for each element, and the number of a node is its position, counted from one:
  the principle in place \<open>p\<close> has \<open>p\<close>, its guideline in place \<open>g\<close> has \<open>p.g\<close>,
  and the success criterion in place \<open>s\<close> of that guideline has \<open>p.g.s\<close>. The id of
  each node is the one of the element in the same place, so two sibling guidelines that
  change places exchange their numbers.
\<close>

theorem getPrinciples_num_positional:
  assumes "getPrinciples paths document = Inr principles"
  shows "length principles = length (principle_els document) \<and>
    (\<forall>p<length principles.
       Principle.num (principles ! p) = string_of_nat (p + 1) \<and>
       DocNode.id (principles ! p) = attr (principle_els document ! p) ''id'' \<and>
       length (Principle.guidelines (principles ! p)) =
         length (guideline_els (principle_els document ! p)) \<and>
       (\<forall>g<length (Principle.guidelines (principles ! p)).
          Guideline.num (Principle.guidelines (principles ! p) ! g) =
            string_of_nat (p + 1) @ ''.'' @ string_of_nat (g + 1) \<and>
          DocNode.id (Principle.guidelines (principles ! p) ! g) =
            attr (guideline_els (principle_els document ! p) ! g) ''id'' \<and>
          length (successCriteria (Principle.guidelines (principles ! p) ! g)) =
            length (sc_els (guideline_els (principle_els document ! p) ! g)) \<and>
          (\<forall>s<length (successCriteria (Principle.guidelines (principles ! p) ! g)).
             SuccessCriterion.num (successCriteria (Principle.guidelines (principles ! p) ! g) ! s) =
               string_of_nat (p + 1) @ ''.'' @ string_of_nat (g + 1) @ ''.'' @
               string_of_nat (s + 1) \<and>
             DocNode.id (successCriteria (Principle.guidelines (principles ! p) ! g) ! s) =
               attr (sc_els (guideline_els (principle_els document ! p) ! g) ! s) ''id'')))"
proof -
  from principles_at [OF assms] obtain versions
    where len: "length principles = length (principle_els document)"
      and ps: "\<And>p. p < length principles \<Longrightarrow>
                 principle_node versions p (principle_els document ! p) = Inr (principles ! p)"
    by blast
  show ?thesis
  proof (intro conjI allI impI)
    show "length principles = length (principle_els document)" by (rule len)
  next
    fix p assume p: "p < length principles"
    from principle_node_Inr [OF ps [OF p]]
    show "Principle.num (principles ! p) = string_of_nat (p + 1)" by simp
  next
    fix p assume p: "p < length principles"
    from principle_node_Inr [OF ps [OF p]]
    show "DocNode.id (principles ! p) = attr (principle_els document ! p) ''id''" by simp
  next
    fix p assume p: "p < length principles"
    from guidelines_at [OF ps [OF p]]
    show "length (Principle.guidelines (principles ! p)) =
            length (guideline_els (principle_els document ! p))" by simp
  next
    fix p g assume p: "p < length principles"
      and g: "g < length (Principle.guidelines (principles ! p))"
    from guidelines_at [OF ps [OF p]] g
    have G: "guideline_node versions p g (guideline_els (principle_els document ! p) ! g) =
               Inr (Principle.guidelines (principles ! p) ! g)" by simp
    from guideline_node_Inr [OF G]
    show "Guideline.num (Principle.guidelines (principles ! p) ! g) =
            string_of_nat (p + 1) @ ''.'' @ string_of_nat (g + 1)" by simp
  next
    fix p g assume p: "p < length principles"
      and g: "g < length (Principle.guidelines (principles ! p))"
    from guidelines_at [OF ps [OF p]] g
    have G: "guideline_node versions p g (guideline_els (principle_els document ! p) ! g) =
               Inr (Principle.guidelines (principles ! p) ! g)" by simp
    from guideline_node_Inr [OF G]
    show "DocNode.id (Principle.guidelines (principles ! p) ! g) =
            attr (guideline_els (principle_els document ! p) ! g) ''id''" by simp
  next
    fix p g assume p: "p < length principles"
      and g: "g < length (Principle.guidelines (principles ! p))"
    from guidelines_at [OF ps [OF p]] g
    have G: "guideline_node versions p g (guideline_els (principle_els document ! p) ! g) =
               Inr (Principle.guidelines (principles ! p) ! g)" by simp
    from successCriteria_at [OF G]
    show "length (successCriteria (Principle.guidelines (principles ! p) ! g)) =
            length (sc_els (guideline_els (principle_els document ! p) ! g))" by simp
  next
    fix p g s assume p: "p < length principles"
      and g: "g < length (Principle.guidelines (principles ! p))"
      and s: "s < length (successCriteria (Principle.guidelines (principles ! p) ! g))"
    from guidelines_at [OF ps [OF p]] g
    have G: "guideline_node versions p g (guideline_els (principle_els document ! p) ! g) =
               Inr (Principle.guidelines (principles ! p) ! g)" by simp
    from successCriteria_at [OF G] s
    have S: "sc_node versions p g s (sc_els (guideline_els (principle_els document ! p) ! g) ! s) =
               Inr (successCriteria (Principle.guidelines (principles ! p) ! g) ! s)" by simp
    from sc_node_Inr [OF S]
    show "SuccessCriterion.num (successCriteria (Principle.guidelines (principles ! p) ! g) ! s) =
               string_of_nat (p + 1) @ ''.'' @ string_of_nat (g + 1) @ ''.'' @
               string_of_nat (s + 1)" by simp
  next
    fix p g s assume p: "p < length principles"
      and g: "g < length (Principle.guidelines (principles ! p))"
      and s: "s < length (successCriteria (Principle.guidelines (principles ! p) ! g))"
    from guidelines_at [OF ps [OF p]] g
    have G: "guideline_node versions p g (guideline_els (principle_els document ! p) ! g) =
               Inr (Principle.guidelines (principles ! p) ! g)" by simp
    from successCriteria_at [OF G] s
    have S: "sc_node versions p g s (sc_els (guideline_els (principle_els document ! p) ! g) ! s) =
               Inr (successCriteria (Principle.guidelines (principles ! p) ! g) ! s)" by simp
    from sc_node_Inr [OF S]
    show "DocNode.id (successCriteria (Principle.guidelines (principles ! p) ! g) ! s) =
               attr (sc_els (guideline_els (principle_els document ! p) ! g) ! s) ''id''" by simp
  qed
qed


text \<open>The definitions a concrete call of \<^verbatim>\<open>getPrinciples\<close> unfolds.\<close>

lemmas getPrinciples_eval =
  getPrinciples_def getInvertedGuidelinesVersions_def getGuidelinesVersions_def
  push_version_def assertIsWcagVersion_def is_wcag_version_def basename_html_def sort_by_def
  compare_strings_def invert_versions_def principle_els_def guideline_els_def sc_els_def
  select_def has_class_def is_space_def text_content_def trim_def to_string_def
  sc_node_def guideline_node_def principle_node_def string_of_nat.simps
  get_property_def set_property_def string_of_property_def object_prototype_names_def

lemma example_getPrinciples:
  "getPrinciples example_understanding example_index = Inr example_principles"
  by (simp add: getPrinciples_eval example_understanding_def example_index_def
        example_principles_def)

text \<open>
  With the two guidelines exchanged in the document, \<^verbatim>\<open>input-modalities\<close> takes the
  number 2.1 and keeps its version, and the other guideline takes 2.2.
\<close>

lemma example_getPrinciples_swapped:
  "map (\<lambda>G. (DocNode.id G, Guideline.num G, Guideline.version G))
     (Principle.guidelines
        (projr (getPrinciples example_understanding example_index_swapped) ! 1)) =
   [(Some ''input-modalities'', ''2.1'', ''WCAG21''),
    (Some ''keyboard-accessible'', ''2.2'', ''WCAG20'')]"
  by (simp add: getPrinciples_eval example_understanding_def example_index_swapped_def)

theorem getPrinciples_num_positional_witness:
  "Principle.num (example_principles ! 1) = ''2'' \<and>
   Guideline.num (Principle.guidelines (example_principles ! 1) ! 1) = ''2.2'' \<and>
   DocNode.id (Principle.guidelines (example_principles ! 1) ! 1) = Some ''input-modalities'' \<and>
   SuccessCriterion.num
     (successCriteria (Principle.guidelines (example_principles ! 1) ! 1) ! 0) = ''2.2.1''"
proof -
  have len: "length example_principles = 2"
    "length (Principle.guidelines (example_principles ! 1)) = 2"
    "length (successCriteria (Principle.guidelines (example_principles ! 1) ! 1)) = 1"
    by (simp_all add: example_principles_def)
  have els: "attr (guideline_els (principle_els example_index ! 1) ! 1) ''id'' =
               Some ''input-modalities''"
    by (simp add: example_index_def principle_els_def guideline_els_def select_def
          has_class_def is_space_def)
  from getPrinciples_num_positional [OF example_getPrinciples] len els show ?thesis
    by (simp add: string_of_nat.simps)
qed

lemma each_mem:
  assumes "each f i els = Inr nodes" and "node \<in> set nodes"
  shows "\<exists>k<length els. f (i + k) (els ! k) = Inr node"
proof -
  from assms(2) obtain k where k: "k < length nodes" "nodes ! k = node"
    by (auto simp: in_set_conv_nth)
  with each_Inr [OF assms(1)] show ?thesis by auto
qed

text \<open>
  Claim C5. A guideline of a returned tree, in whatever place, has the version
  \<^verbatim>\<open>WCAG21\<close> exactly when its id is \<^verbatim>\<open>input-modalities\<close>, and \<^verbatim>\<open>WCAG20\<close> otherwise.
\<close>

theorem getPrinciples_guideline_version:
  assumes "getPrinciples paths document = Inr principles"
    and "P \<in> set principles" and "G \<in> set (Principle.guidelines P)"
  shows "(Guideline.version G = ''WCAG21'' \<longleftrightarrow> DocNode.id G = Some ''input-modalities'') \<and>
         (DocNode.id G \<noteq> Some ''input-modalities'' \<longrightarrow> Guideline.version G = ''WCAG20'')"
proof -
  from getPrinciples_Inr [OF assms(1)] obtain versions
    where e: "each (principle_node versions) 0 (principle_els document) = Inr principles"
    by blast
  from each_mem [OF e assms(2)] obtain p el where "principle_node versions p el = Inr P"
    by auto
  from principle_node_Inr [OF this]
  have "each (guideline_node versions p) 0 (guideline_els el) = Inr (Principle.guidelines P)"
    by simp
  from each_mem [OF this assms(3)] obtain g gel where "guideline_node versions p g gel = Inr G"
    by auto
  from guideline_node_Inr [OF this] show ?thesis by auto
qed

theorem getPrinciples_guideline_version_witness:
  "Guideline.version (Principle.guidelines (example_principles ! 1) ! 1) = ''WCAG21'' \<and>
   Guideline.version (Principle.guidelines (example_principles ! 1) ! 0) = ''WCAG20''"
proof -
  have P: "example_principles ! 1 \<in> set example_principles"
    by (simp add: example_principles_def)
  have G0: "Principle.guidelines (example_principles ! 1) ! 0 \<in>
              set (Principle.guidelines (example_principles ! 1))"
    and G1: "Principle.guidelines (example_principles ! 1) ! 1 \<in>
              set (Principle.guidelines (example_principles ! 1))"
    by (simp_all add: example_principles_def)
  have ids: "DocNode.id (Principle.guidelines (example_principles ! 1) ! 1) = Some ''input-modalities''"
    "DocNode.id (Principle.guidelines (example_principles ! 1) ! 0) \<noteq> Some ''input-modalities''"
    by (simp_all add: example_principles_def)
  from getPrinciples_guideline_version [OF example_getPrinciples P G1]
       getPrinciples_guideline_version [OF example_getPrinciples P G0] ids
  show ?thesis by blast
qed

text \<open>
  Claim C4, amended. The level of a success criterion is the trimmed text of the
  \<^verbatim>\<open>p.conformance-level\<close> elements inside its element, whatever that text is: the
  cast to the level type checks nothing. The counterexample below is an index document
  whose marker reads B, which the build accepts.
\<close>

theorem getPrinciples_level_is_marker_text:
  assumes "getPrinciples paths document = Inr principles"
  shows "\<forall>p<length principles.
           \<forall>g<length (Principle.guidelines (principles ! p)).
             \<forall>s<length (successCriteria (Principle.guidelines (principles ! p) ! g)).
               level (successCriteria (Principle.guidelines (principles ! p) ! g) ! s) =
                 trim (text_content (select (TagClass ''p'' ''conformance-level'')
                         (sc_els (guideline_els (principle_els document ! p) ! g) ! s)))"
proof (intro allI impI)
  fix p g s assume p: "p < length principles"
    and g: "g < length (Principle.guidelines (principles ! p))"
    and s: "s < length (successCriteria (Principle.guidelines (principles ! p) ! g))"
  from principles_at [OF assms] p obtain versions
    where P: "principle_node versions p (principle_els document ! p) = Inr (principles ! p)"
    by blast
  from guidelines_at [OF P] g
  have G: "guideline_node versions p g (guideline_els (principle_els document ! p) ! g) =
             Inr (Principle.guidelines (principles ! p) ! g)" by simp
  from successCriteria_at [OF G] s
  have S: "sc_node versions p g s (sc_els (guideline_els (principle_els document ! p) ! g) ! s) =
             Inr (successCriteria (Principle.guidelines (principles ! p) ! g) ! s)" by simp
  from sc_node_Inr [OF S]
  show "level (successCriteria (Principle.guidelines (principles ! p) ! g) ! s) =
          trim (text_content (select (TagClass ''p'' ''conformance-level'')
                  (sc_els (guideline_els (principle_els document ! p) ! g) ! s)))" by simp
qed

theorem getPrinciples_level_is_marker_text_witness:
  "level (successCriteria (Principle.guidelines (example_principles ! 1) ! 1) ! 0) =
     trim (text_content (select (TagClass ''p'' ''conformance-level'')
             (sc_els (guideline_els (principle_els example_index ! 1) ! 1) ! 0)))"
proof -
  have len: "1 < length example_principles"
    "1 < length (Principle.guidelines (example_principles ! 1))"
    "0 < length (successCriteria (Principle.guidelines (example_principles ! 1) ! 1))"
    by (simp_all add: example_principles_def)
  from getPrinciples_level_is_marker_text [OF example_getPrinciples] len show ?thesis
    by blast
qed

theorem getPrinciples_level_unchecked_counterexample:
  "getPrinciples [''20/non-text-content.html'']
     (Element ''body'' []
        [Element ''section'' [(''class'', ''principle''), (''id'', ''perceivable'')]
           [Element ''h2'' [] [Text ''Perceivable''],
            Element ''section'' [(''class'', ''guideline''), (''id'', ''text-alternatives'')]
              [Element ''h3'' [] [Text ''Text Alternatives''],
               Element ''section'' [(''class'', ''sc''), (''id'', ''non-text-content'')]
                 [Element ''h4'' [] [Text ''Non-text Content''],
                  Element ''p'' [(''class'', ''conformance-level'')] [Text ''B'']]]]]) =
   Inr [\<lparr>DocNode.id = Some ''perceivable'', name = ''Perceivable'', type = ''Principle'',
         Principle.num = ''1'', version = ''WCAG20'',
         guidelines =
           [\<lparr>DocNode.id = Some ''text-alternatives'', name = ''Text Alternatives'',
             type = ''Guideline'', Guideline.num = ''1.1'', version = ''WCAG20'',
             successCriteria =
               [\<lparr>DocNode.id = Some ''non-text-content'', name = ''Non-text Content'',
                 type = ''SC'', SuccessCriterion.num = ''1.1.1'', level = ''B'',
                 version = ''WCAG20''\<rparr>]\<rparr>]\<rparr>] \<and>
   ''B'' \<notin> {''A'', ''AA'', ''AAA''}"
  by (simp add: getPrinciples_eval)


lemma is_wcag_version_iff: "is_wcag_version v \<longleftrightarrow> v \<in> set [''20'', ''21'', ''22'']"
  by (auto simp: is_wcag_version_def split: list.splits)

lemma to_string_version:
  assumes "is_wcag_version (string_of_property (get_property versions key))"
  shows "\<exists>v\<in>set [''20'', ''21'', ''22'']. versions key = Some v"
proof (cases "versions key")
  case None
  with assms show ?thesis
    by (simp add: get_property_def string_of_property_def inherited_to_string_def
          inherited_name_def is_wcag_version_def split: if_splits)
next
  case (Some v)
  with assms show ?thesis
    by (simp add: get_property_def string_of_property_def is_wcag_version_iff)
qed

lemma guideline_node_Inl:
  assumes "guideline_node versions i j el = Inl e"
  shows "\<exists>v. e = UnexpectedVersion v"
proof -
  from assms have "each (sc_node versions i j) 0 (sc_els el) = Inl e"
    by (auto simp: guideline_node_def split: sum.splits)
  from each_Inl [OF this] obtain k where "sc_node versions i j (0 + k) (sc_els el ! k) = Inl e"
    by blast
  from sc_node_Inl [OF this] show ?thesis by blast
qed

lemma principle_node_Inl:
  assumes "principle_node versions i el = Inl e"
  shows "\<exists>v. e = UnexpectedVersion v"
proof -
  from assms have "each (guideline_node versions i) 0 (guideline_els el) = Inl e"
    by (auto simp: principle_node_def split: sum.splits)
  from each_Inl [OF this] obtain k
    where "guideline_node versions i (0 + k) (guideline_els el ! k) = Inl e"
    by blast
  from guideline_node_Inl [OF this] show ?thesis .
qed

lemma getPrinciples_Inl:
  assumes "getInvertedGuidelinesVersions paths = Inr versions"
    and "getPrinciples paths document = Inl e"
  shows "\<exists>v. e = UnexpectedVersion v"
proof -
  from assms have "each (principle_node versions) 0 (principle_els document) = Inl e"
    by (simp add: getPrinciples_def)
  from each_Inl [OF this] obtain k
    where "principle_node versions (0 + k) (principle_els document ! k) = Inl e"
    by blast
  from principle_node_Inl [OF this] show ?thesis .
qed

lemma each_all:
  assumes "each f i els = Inr nodes" and "el \<in> set els"
  shows "\<exists>k node. f k el = Inr node"
proof -
  from assms(2) obtain k where "k < length els" "els ! k = el"
    by (auto simp: in_set_conv_nth)
  with each_Inr [OF assms(1)] show ?thesis by auto
qed

text \<open>
  Claim C7. Once the index of versions is built, a success criterion element whose id is
  not a key of the index makes \<^verbatim>\<open>getPrinciples\<close> fail with the error of
  \<^verbatim>\<open>assertIsWcagVersion\<close>; and in a returned tree the version of every success criterion
  is \<^verbatim>\<open>WCAG\<close> followed by the entry of the index for its id, one of 20, 21 and 22.
\<close>

theorem getPrinciples_version_resolved:
  assumes "getInvertedGuidelinesVersions paths = Inr versions"
  shows "(\<forall>el\<in>set (principle_els document). \<forall>guidelineEl\<in>set (guideline_els el).
            \<forall>scEl\<in>set (sc_els guidelineEl).
              versions (to_string (attr scEl ''id'')) = None \<longrightarrow>
              (\<exists>v. getPrinciples paths document = Inl (UnexpectedVersion v))) \<and>
         (\<forall>principles. getPrinciples paths document = Inr principles \<longrightarrow>
            (\<forall>P\<in>set principles. \<forall>G\<in>set (Principle.guidelines P). \<forall>S\<in>set (successCriteria G).
               \<exists>v\<in>set [''20'', ''21'', ''22''].
                 versions (to_string (DocNode.id S)) = Some v \<and>
                 SuccessCriterion.version S = ''WCAG'' @ v))"
proof (intro conjI ballI allI impI)
  fix el guidelineEl scEl
  assume el: "el \<in> set (principle_els document)"
    and gel: "guidelineEl \<in> set (guideline_els el)"
    and scEl: "scEl \<in> set (sc_els guidelineEl)"
    and absent: "versions (to_string (attr scEl ''id'')) = None"
  show "\<exists>v. getPrinciples paths document = Inl (UnexpectedVersion v)"
  proof (cases "getPrinciples paths document")
    case (Inl e)
    with getPrinciples_Inl [OF assms Inl] show ?thesis by auto
  next
    case (Inr principles)
    with assms have "each (principle_node versions) 0 (principle_els document) = Inr principles"
      by (simp add: getPrinciples_def)
    from each_all [OF this el] obtain p P where "principle_node versions p el = Inr P"
      by blast
    from principle_node_Inr [OF this]
    have "each (guideline_node versions p) 0 (guideline_els el) = Inr (Principle.guidelines P)"
      by simp
    from each_all [OF this gel] obtain g G where "guideline_node versions p g guidelineEl = Inr G"
      by blast
    from guideline_node_Inr [OF this]
    have "each (sc_node versions p g) 0 (sc_els guidelineEl) = Inr (successCriteria G)"
      by simp
    from each_all [OF this scEl] obtain s S where "sc_node versions p g s scEl = Inr S"
      by blast
    from sc_node_Inr [OF this]
    have "is_wcag_version
            (string_of_property (get_property versions (to_string (attr scEl ''id''))))"
      by simp
    from to_string_version [OF this] absent have False by simp
    then show ?thesis ..
  qed
next
  fix principles P G S
  assume ok: "getPrinciples paths document = Inr principles"
    and P: "P \<in> set principles" and G: "G \<in> set (Principle.guidelines P)"
    and S: "S \<in> set (successCriteria G)"
  from ok assms have "each (principle_node versions) 0 (principle_els document) = Inr principles"
    by (simp add: getPrinciples_def)
  from each_mem [OF this P] obtain p el where "principle_node versions p el = Inr P"
    by auto
  from principle_node_Inr [OF this]
  have "each (guideline_node versions p) 0 (guideline_els el) = Inr (Principle.guidelines P)"
    by simp
  from each_mem [OF this G] obtain g gel where "guideline_node versions p g gel = Inr G"
    by auto
  from guideline_node_Inr [OF this]
  have "each (sc_node versions p g) 0 (sc_els gel) = Inr (successCriteria G)"
    by simp
  from each_mem [OF this S] obtain s scEl where "sc_node versions p g s scEl = Inr S"
    by auto
  from sc_node_Inr [OF this]
  have id: "DocNode.id S = attr scEl ''id''"
    and valid: "is_wcag_version
                  (string_of_property (get_property versions (to_string (attr scEl ''id''))))"
    and version: "SuccessCriterion.version S =
                    ''WCAG'' @
                    string_of_property (get_property versions (to_string (attr scEl ''id'')))"
    by simp_all
  from to_string_version [OF valid] obtain v
    where v: "v \<in> set [''20'', ''21'', ''22'']" "versions (to_string (attr scEl ''id'')) = Some v"
    by blast
  with id version have "versions (to_string (DocNode.id S)) = Some v \<and>
                        SuccessCriterion.version S = ''WCAG'' @ v"
    by (simp add: get_property_def string_of_property_def)
  with v(1) show "\<exists>v\<in>set [''20'', ''21'', ''22''].
                    versions (to_string (DocNode.id S)) = Some v \<and>
                    SuccessCriterion.version S = ''WCAG'' @ v"
    by blast
qed


theorem getPrinciples_version_resolved_witness:
  "(\<exists>v. getPrinciples [''20/non-text-content.html'', ''21/pointer-gestures.html'']
          example_index = Inl (UnexpectedVersion v)) \<and>
   SuccessCriterion.version
     (successCriteria (Principle.guidelines (example_principles ! 1) ! 1) ! 0) = ''WCAG21''"
proof -
  obtain versions where versions:
    "getInvertedGuidelinesVersions [''20/non-text-content.html'', ''21/pointer-gestures.html''] =
       Inr versions"
    and absent: "versions ''keyboard'' = None"
    by (simp add: getPrinciples_eval)
  have el: "principle_els example_index ! 1 \<in> set (principle_els example_index)"
    and gel: "guideline_els (principle_els example_index ! 1) ! 0 \<in>
                set (guideline_els (principle_els example_index ! 1))"
    and scEl: "sc_els (guideline_els (principle_els example_index ! 1) ! 0) ! 0 \<in>
                set (sc_els (guideline_els (principle_els example_index ! 1) ! 0))"
    and key: "to_string (attr (sc_els (guideline_els (principle_els example_index ! 1) ! 0) ! 0)
                ''id'') = ''keyboard''"
    by (simp_all add: example_index_def principle_els_def guideline_els_def sc_els_def
          select_def has_class_def is_space_def to_string_def)
  from getPrinciples_version_resolved [OF versions, of example_index] el gel scEl key absent
  have fails: "\<exists>v. getPrinciples [''20/non-text-content.html'', ''21/pointer-gestures.html'']
                    example_index = Inl (UnexpectedVersion v)"
    by metis
  obtain versions' where versions':
    "getInvertedGuidelinesVersions example_understanding = Inr versions'"
    and at: "versions' ''pointer-gestures'' = Some ''21''"
    by (simp add: getPrinciples_eval example_understanding_def)
  have P: "example_principles ! 1 \<in> set example_principles"
    and G: "Principle.guidelines (example_principles ! 1) ! 1 \<in>
              set (Principle.guidelines (example_principles ! 1))"
    and S: "successCriteria (Principle.guidelines (example_principles ! 1) ! 1) ! 0 \<in>
              set (successCriteria (Principle.guidelines (example_principles ! 1) ! 1))"
    and id: "to_string (DocNode.id
               (successCriteria (Principle.guidelines (example_principles ! 1) ! 1) ! 0)) =
             ''pointer-gestures''"
    by (simp_all add: example_principles_def to_string_def)
  from getPrinciples_version_resolved [OF versions', of example_index] example_getPrinciples P G S
  have "\<exists>v\<in>set [''20'', ''21'', ''22''].
          versions' (to_string (DocNode.id
             (successCriteria (Principle.guidelines (example_principles ! 1) ! 1) ! 0))) = Some v \<and>
          SuccessCriterion.version
             (successCriteria (Principle.guidelines (example_principles ! 1) ! 1) ! 0) = ''WCAG'' @ v"
    by blast
  with id at have "SuccessCriterion.version
     (successCriteria (Principle.guidelines (example_principles ! 1) ! 1) ! 0) = ''WCAG21''"
    by auto
  with fails show ?thesis by blast
qed

text \<open>
  A success criterion whose id is a name objects inherit: without a file of that name the
  read gives the inherited value and the assertion fails on its text; the file
  \<^verbatim>\<open>__proto__.html\<close> makes no entry, so the build fails with it as without it.
\<close>

lemma getPrinciples_inherited_id:
  "getPrinciples [''20/keyboard.html'']
     (Element ''body'' []
        [Element ''section'' [(''class'', ''principle'')]
           [Element ''section'' [(''class'', ''guideline'')]
              [Element ''section'' [(''class'', ''sc''), (''id'', ''constructor'')] []]]]) =
   Inl (UnexpectedVersion ''function Object() { [native code] }'') \<and>
   getPrinciples [''20/__proto__.html'']
     (Element ''body'' []
        [Element ''section'' [(''class'', ''principle'')]
           [Element ''section'' [(''class'', ''guideline'')]
              [Element ''section'' [(''class'', ''sc''), (''id'', ''__proto__'')] []]]]) =
   Inl (UnexpectedVersion ''[object Object]'')"
  by (simp add: getPrinciples_eval inherited_to_string_def inherited_name_def)

section \<open>Properties of the index of versions\<close>




lemma push_version_well_placed:
  assumes "well_placed path"
  shows "push_version versions path =
           Inr (map (\<lambda>(key, list). (key, list @ basenames_under key [path])) versions)"
  using assms
  by (auto simp: push_version_def well_placed_def assertIsWcagVersion_def basenames_under_def
           split: list.splits)

lemma push_version_not_well_placed:
  assumes "\<not> well_placed path"
  shows "push_version versions path = Inl TypeError \<or>
         push_version versions path = Inl (UnexpectedVersion (hd (split_slash path)))"
  using assms
  by (auto simp: push_version_def well_placed_def assertIsWcagVersion_def split: list.splits)







text \<open>An unrecognized version partition: the first one in discovery order is reported.\<close>

lemma push_versions_unrecognized:
  assumes "\<forall>path\<in>set before. well_placed path"
    and "split_slash path = v # rest" and "\<not> is_wcag_version v"
  shows "push_versions versions (before @ path # after) = Inl (UnexpectedVersion v)"
  using assms
proof (induction before arbitrary: versions)
  case Nil
  then show ?case
    by (simp add: push_version_def assertIsWcagVersion_def)
next
  case (Cons p ps)
  then have here: "well_placed p" by simp
  from Cons show ?case
    by (simp add: push_version_well_placed [OF here])
qed

lemma getGuidelinesVersions_unrecognized:
  assumes "\<forall>path\<in>set before. well_placed path"
    and "split_slash path = v # rest" and "\<not> is_wcag_version v"
  shows "getGuidelinesVersions (before @ path # after) = Inl (UnexpectedVersion v)"
  by (simp add: getGuidelinesVersions_def push_versions_unrecognized [OF assms])

lemma push_versions_fails:
  assumes "path \<in> set paths" and "\<not> well_placed path"
  shows "\<exists>e. push_versions versions paths = Inl e"
  using assms
proof (induction paths arbitrary: versions)
  case Nil
  then show ?case by simp
next
  case (Cons p ps)
  show ?case
  proof (cases "push_version versions p")
    case (Inl e)
    then show ?thesis by simp
  next
    case (Inr versions')
    with push_version_not_well_placed [of p versions] have "well_placed p" by auto
    with Cons.prems have "path \<in> set ps" by auto
    from Cons.IH [OF this Cons.prems(2)] Inr show ?thesis by simp
  qed
qed


lemma getGuidelinesVersions_unrecognized_partition_fails:
  assumes "path \<in> set paths" and "\<not> well_placed path"
  shows "\<exists>e. getGuidelinesVersions paths = Inl e"
proof -
  from push_versions_fails [OF assms] obtain e
    where "push_versions [(''20'', []), (''21'', []), (''22'', [])] paths = Inl e"
    by blast
  then show ?thesis by (simp add: getGuidelinesVersions_def)
qed

section \<open>Properties of the link filters\<close>

lemmas link_eval =
  linkUnderstanding_def linkUnderstanding_link_def linkTechniques_def linkTechniques_link_def
  starts_with_def in_techniques_subdirectory_def is_line_terminator_def and_separator_def
  baseUrls_def get_property_def read_field_def read_name_def object_prototype_names_def
  inherited_name_def to_string_def

text \<open>
  Claim C2. \<^verbatim>\<open>linkUnderstanding\<close> logs the warning for an id that is not in
  \<^verbatim>\<open>flatGuidelines\<close> and then throws: no links are returned, the one of the id that
  resolves included. \<^verbatim>\<open>linkTechniques\<close> on the like input returns the link of the id
  that resolves, as the lemmas after the theorem show.
\<close>

theorem linkUnderstanding_unresolvable_id_throws:
  "linkUnderstanding
     \<lparr>inputPath = ''./techniques/general/G202.html'', filePathStem = ''/techniques/general/G202''\<rparr>
     (baseUrls Unset)
     [''keyboard'' \<mapsto> \<lparr>FlatGuideline.num = ''2.1.1'', name = ''Keyboard''\<rparr>]
     (Many [Str ''keyboard'', Str ''no-such-criterion'']) =
   ([''linkUnderstanding in ./techniques/general/G202.html: skipping unresolvable guideline shortname no-such-criterion''],
    Inl TypeError)"
  by (simp add: link_eval)

lemma linkTechniques_unresolvable_id_skipped:
  "linkTechniques
     \<lparr>inputPath = ''./understanding/20/keyboard.html'', filePathStem = ''/understanding/20/keyboard''\<rparr>
     (baseUrls Unset)
     [''G202'' \<mapsto> \<lparr>technology = ''general'', truncatedTitle = ''Ensuring keyboard control''\<rparr>]
     (Many [Str ''G202'', Str ''G9999'']) =
   ([''linkTechniques in ./understanding/20/keyboard.html: skipping unresolvable technique id G9999''],
    Inr (''<a href='' @ [CHR 0x22] @ ''/techniques/general/G202'' @ [CHR 0x22] @
         ''>G202: Ensuring keyboard control</a>''))"
  by (simp add: link_eval)

text \<open>
  An id that is a name objects inherit finds the inherited value in either map: neither
  filter warns, and each renders a link from the fields that value has.
\<close>

lemma link_filters_inherited_name:
  "linkTechniques
     \<lparr>inputPath = ''./understanding/20/keyboard.html'', filePathStem = ''/understanding/20/keyboard''\<rparr>
     (baseUrls Unset) Map.empty (One (Str ''constructor'')) =
   ([], Inr (''<a href='' @ [CHR 0x22] @ ''/techniques/undefined/constructor'' @ [CHR 0x22] @
             ''>constructor: undefined</a>'')) \<and>
   linkUnderstanding
     \<lparr>inputPath = ''./techniques/general/G202.html'', filePathStem = ''/techniques/general/G202''\<rparr>
     (baseUrls Unset) Map.empty (One (Str ''constructor'')) =
   ([], Inr (''<a href='' @ [CHR 0x22] @ ''/understanding/constructor'' @ [CHR 0x22] @
             ''>undefined: Object</a>''))"
  by (simp add: link_eval)

lemma map_logged_linkUnderstanding_unresolvable:
  assumes "Str i \<in> set vs" and "get_property flatGuidelines i = Undefined"
  shows "\<exists>warnings e. map_logged (linkUnderstanding_link page urls flatGuidelines) vs =
           (warnings, Inl e)"
  using assms(1)
proof (induction vs)
  case Nil
  then show ?case by simp
next
  case (Cons v vs)
  obtain w r where here: "linkUnderstanding_link page urls flatGuidelines v = (w, r)"
    by (cases "linkUnderstanding_link page urls flatGuidelines v")
  show ?case
  proof (cases r)
    case (Inl e)
    with here show ?thesis by simp
  next
    case (Inr link)
    with here assms(2) have "v \<noteq> Str i"
      by (auto simp: linkUnderstanding_link_def Let_def)
    with Cons.prems have "Str i \<in> set vs" by simp
    from Cons.IH [OF this] obtain w' e where "map_logged (linkUnderstanding_link page urls flatGuidelines) vs = (w', Inl e)"
      by blast
    with here Inr show ?thesis by simp
  qed
qed

lemma linkUnderstanding_unresolvable_aborts:
  assumes "Str i \<in> set (to_array ids)" and "get_property flatGuidelines i = Undefined"
  shows "\<exists>warnings e. linkUnderstanding page urls flatGuidelines ids = (warnings, Inl e)"
proof -
  from map_logged_linkUnderstanding_unresolvable [of i "to_array ids" flatGuidelines page urls] assms
  obtain w e
    where "map_logged (linkUnderstanding_link page urls flatGuidelines) (to_array ids) = (w, Inl e)"
    by blast
  then show ?thesis by (simp add: linkUnderstanding_def)
qed

text \<open>What \<^verbatim>\<open>linkTechniques\<close> renders for an id that resolves and what it logs for one that does not.\<close>

lemma linkTechniques_link_Str:
  "\<exists>warnings link. linkTechniques_link page urls flatTechniques (Str i) = (warnings, Inr link)"
  by (simp add: linkTechniques_link_def Let_def)

lemma map_logged_linkTechniques:
  "map_logged (linkTechniques_link page urls flatTechniques) (map Str is) =
     (concat (map (\<lambda>i. fst (linkTechniques_link page urls flatTechniques (Str i))) is),
      Inr (map (\<lambda>i. projr (snd (linkTechniques_link page urls flatTechniques (Str i)))) is))"
proof (induction "is")
  case Nil
  then show ?case by simp
next
  case (Cons i "is")
  from linkTechniques_link_Str [of page urls flatTechniques i] obtain w l
    where "linkTechniques_link page urls flatTechniques (Str i) = (w, Inr l)" by blast
  with Cons.IH show ?case by simp
qed

lemma linkTechniques_never_aborts_on_strings:
  "\<exists>warnings links. linkTechniques page urls flatTechniques (Many (map Str is)) =
     (warnings, Inr links)"
  by (simp add: linkTechniques_def map_logged_linkTechniques)


end
